theory Spec2Isabelle
  imports Main "HOL-Library.AList" "HOL-Library.Sublist"
begin

section \<open>JavaScript values\<close>

text \<open>
  The module \<^verbatim>\<open>src/index.js\<close> works on option records, a job template object,
  the file system, a logger and two HTTP endpoints.  Values are modelled as far as the module
  looks at them: truthiness (for the flags and the \<^verbatim>\<open>||\<close> defaults), conversion to text
  (string concatenation and template literals) and \<^verbatim>\<open>parseInt\<close>.  Numbers are the
  integers and \<^verbatim>\<open>NaN\<close>: every number the module computes comes from
  \<^verbatim>\<open>parseInt\<close>, a day difference, \<^verbatim>\<open>Math.abs\<close>, \<^verbatim>\<open>+ 1\<close> and a product.
  Integers are kept exact (a double is exact below \<open>2^53\<close>), and \<open>-0\<close> is \<open>0\<close>.
\<close>

type_synonym addr = nat

datatype jsnum = Finite int | NaN

datatype jsval =
    Undefined
  | Null
  | Boolean bool
  | Number jsnum
  | Str string
  | Ref addr

type_synonym obj = "string \<Rightarrow> jsval option"

fun truthy :: "jsval \<Rightarrow> bool" where
  "truthy Undefined = False"
| "truthy Null = False"
| "truthy (Boolean b) = b"
| "truthy (Number (Finite i)) = (i \<noteq> 0)"
| "truthy (Number NaN) = False"
| "truthy (Str s) = (s \<noteq> [])"
| "truthy (Ref a) = True"

text \<open>\<^verbatim>\<open>a || b\<close>\<close>

definition js_or :: "jsval \<Rightarrow> jsval \<Rightarrow> jsval" where
  "js_or a b = (if truthy a then a else b)"

fun digits :: "nat \<Rightarrow> string" where
  "digits n = (if n < 10 then [''0123456789'' ! n]
               else digits (n div 10) @ [''0123456789'' ! (n mod 10)])"

declare digits.simps [simp del]

fun num_to_string :: "jsnum \<Rightarrow> string" where
  "num_to_string NaN = ''NaN''"
| "num_to_string (Finite i) = (if i < 0 then CHR ''-'' # digits (nat (- i)) else digits (nat i))"

text \<open>The text a value contributes to a concatenation or a template literal.\<close>

fun to_string :: "jsval \<Rightarrow> string" where
  "to_string Undefined = ''undefined''"
| "to_string Null = ''null''"
| "to_string (Boolean b) = (if b then ''true'' else ''false'')"
| "to_string (Number n) = num_to_string n"
| "to_string (Str s) = s"
| "to_string (Ref a) = ''[object Object]''"

definition is_space :: "char \<Rightarrow> bool" where
  "is_space c = (c = CHR '' '' \<or> c = CHR 0x09 \<or> c = CHR 0x0A \<or> c = CHR 0x0B
                 \<or> c = CHR 0x0C \<or> c = CHR 0x0D)"

definition is_digit :: "char \<Rightarrow> bool" where
  "is_digit c = (48 \<le> (of_char c :: nat) \<and> (of_char c :: nat) \<le> 57)"

definition digit_value :: "char \<Rightarrow> nat" where
  "digit_value c = of_char c - 48"

definition decimal :: "string \<Rightarrow> int" where
  "decimal ds = int (foldl (\<lambda>acc c. 10 * acc + digit_value c) 0 ds)"

text \<open>
  \<^verbatim>\<open>parseInt(v, 10)\<close>: the value as text, leading white space skipped, an optional sign,
  then the longest run of decimal digits; \<^verbatim>\<open>NaN\<close> when that run is empty.
\<close>

definition parseInt :: "jsval \<Rightarrow> jsnum" where
  "parseInt v =
     (let s = dropWhile is_space (to_string v);
          neg = (s \<noteq> [] \<and> hd s = CHR ''-'');
          body = (if s \<noteq> [] \<and> (hd s = CHR ''-'' \<or> hd s = CHR ''+'') then tl s else s);
          ds = takeWhile is_digit body
      in if ds = [] then NaN
         else Finite ((if neg then - 1 else 1) * decimal ds))"

fun js_abs :: "jsnum \<Rightarrow> jsnum" where
  "js_abs NaN = NaN"
| "js_abs (Finite i) = Finite \<bar>i\<bar>"

fun js_add :: "jsnum \<Rightarrow> jsnum \<Rightarrow> jsnum" where
  "js_add (Finite a) (Finite b) = Finite (a + b)"
| "js_add _ _ = NaN"

fun js_mul :: "jsnum \<Rightarrow> jsnum \<Rightarrow> jsnum" where
  "js_mul (Finite a) (Finite b) = Finite (a * b)"
| "js_mul _ _ = NaN"

section \<open>Dates\<close>

text \<open>
  A clock reading, as the local calendar fields of a \<^verbatim>\<open>Date\<close>.  The clock is an input:
  every function that reads it takes the readings as arguments.
\<close>

record datetime =
  dt_year :: nat
  dt_month :: nat
  dt_day :: nat
  dt_hours :: nat
  dt_minutes :: nat
  dt_seconds :: nat
  dt_millis :: nat

text \<open>
  Modelled from the spec: \<^verbatim>\<open>startOfToday\<close> belongs to the date library, which is not
  part of the sources.  The spec has it as the "beginning of current calendar day".  It takes
  the clock reading it is evaluated at.
\<close>

definition startOfToday :: "datetime \<Rightarrow> datetime" where
  "startOfToday now = now\<lparr>dt_hours := 0, dt_minutes := 0, dt_seconds := 0, dt_millis := 0\<rparr>"

text \<open>
  Modelled from the spec: \<^verbatim>\<open>endOfToday\<close> of the date library, the "end of current
  calendar day", at the clock reading it is evaluated at.
\<close>

definition endOfToday :: "datetime \<Rightarrow> datetime" where
  "endOfToday now = now\<lparr>dt_hours := 23, dt_minutes := 59, dt_seconds := 59, dt_millis := 999\<rparr>"

text \<open>A number in decimal, filled with zeros on the left up to \<open>k\<close> digits.\<close>

definition zero_pad :: "nat \<Rightarrow> nat \<Rightarrow> string" where
  "zero_pad k n = replicate (k - length (digits n)) CHR ''0'' @ digits n"

text \<open>
  Modelled from the spec: \<^verbatim>\<open>format\<close> of the date library.  The spec has the result as
  "a fixed MM/DD/YYYY-equivalent textual form" and the dated directory as
  \<^verbatim>\<open>archived/2024/03/07\<close>: the pattern is read left to right, the tokens the module uses
  (\<^verbatim>\<open>YYYY\<close>, \<^verbatim>\<open>MM\<close>, \<^verbatim>\<open>DD\<close>) become the four-digit year and the two-digit month and
  day, and any other character is kept.
\<close>

function format :: "datetime \<Rightarrow> string \<Rightarrow> string" where
  "format d p =
     (if p = [] then []
      else if take 4 p = ''YYYY'' then zero_pad 4 (dt_year d) @ format d (drop 4 p)
      else if take 2 p = ''MM'' then zero_pad 2 (dt_month d) @ format d (drop 2 p)
      else if take 2 p = ''DD'' then zero_pad 2 (dt_day d) @ format d (drop 2 p)
      else hd p # format d (tl p))"
  by pat_completeness auto
termination
  by (relation "measure (\<lambda>(d, p). length p)") auto

declare format.simps [simp del]

section \<open>The file system\<close>

text \<open>
  A file system is a tree: a file with its content, or a directory with its entries in
  listing order.  Paths are texts built by concatenation with \<^verbatim>\<open>/\<close>; the tree is
  addressed by their components (empty components dropped, every path read from the same
  root).
\<close>

datatype node = File string | Dir "(string \<times> node) list"

datatype exn = TypeError string | FsError string | Failure string

fun components :: "string \<Rightarrow> string \<Rightarrow> string list" where
  "components acc [] = (if acc = [] then [] else [acc])"
| "components acc (c # cs) =
     (if c = CHR ''/'' then (if acc = [] then [] else [acc]) @ components [] cs
      else components (acc @ [c]) cs)"

definition path_of :: "string \<Rightarrow> string list" where
  "path_of s = components [] s"

fun resolve :: "node \<Rightarrow> string list \<Rightarrow> node option" where
  "resolve t [] = Some t"
| "resolve (File c) (n # p) = None"
| "resolve (Dir es) (n # p) = (case map_of es n of None \<Rightarrow> None | Some c \<Rightarrow> resolve c p)"

definition is_dir :: "node \<Rightarrow> string list \<Rightarrow> bool" where
  "is_dir t p = (case resolve t p of Some (Dir es) \<Rightarrow> True | _ \<Rightarrow> False)"

text \<open>Apply \<open>f\<close> to the node at a path; a tree without that path is left as it is.\<close>

fun update_at :: "string list \<Rightarrow> (node \<Rightarrow> node) \<Rightarrow> node \<Rightarrow> node" where
  "update_at [] f t = f t"
| "update_at (n # p) f (File c) = File c"
| "update_at (n # p) f (Dir es) =
     (case map_of es n of
        None \<Rightarrow> Dir es
      | Some c \<Rightarrow> Dir (AList.update n (update_at p f c) es))"

text \<open>
  Modelled from the spec: \<^verbatim>\<open>mkdirp.sync\<close> is a library call.  The spec's
  \<^verbatim>\<open>ensureDir\<close> "creates path and all missing ancestors; no-op (not an error) if path
  already exists", and fails on an invalid path: here, a path that runs through a file.
\<close>

fun mkdirp_node :: "string list \<Rightarrow> node \<Rightarrow> exn + node" where
  "mkdirp_node [] (Dir es) = Inr (Dir es)"
| "mkdirp_node [] (File c) = Inl (FsError ''EEXIST'')"
| "mkdirp_node (n # p) (File c) = Inl (FsError ''ENOTDIR'')"
| "mkdirp_node (n # p) (Dir es) =
     (case mkdirp_node p (case map_of es n of None \<Rightarrow> Dir [] | Some c \<Rightarrow> c) of
        Inl e \<Rightarrow> Inl e
      | Inr c' \<Rightarrow> Inr (Dir (AList.update n c' es)))"

text \<open>Modelled from the spec: \<^verbatim>\<open>fs.readdir\<close> lists "the immediate entries" of a directory.\<close>

definition readdir_node :: "string list \<Rightarrow> node \<Rightarrow> exn + string list" where
  "readdir_node p t =
     (case resolve t p of
        None \<Rightarrow> Inl (FsError ''ENOENT'')
      | Some (File c) \<Rightarrow> Inl (FsError ''ENOTDIR'')
      | Some (Dir es) \<Rightarrow> Inr (map fst es))"

definition remove_entry :: "string \<Rightarrow> node \<Rightarrow> node" where
  "remove_entry n d = (case d of Dir es \<Rightarrow> Dir (AList.delete n es) | File c \<Rightarrow> File c)"

definition put_entry :: "string \<Rightarrow> node \<Rightarrow> node \<Rightarrow> node" where
  "put_entry n x d = (case d of Dir es \<Rightarrow> Dir (AList.update n x es) | File c \<Rightarrow> File c)"

text \<open>
  Modelled from the spec: \<^verbatim>\<open>fs.rename\<close> moves an entry under a new path; "if destDir
  already contains an entry with the same name, the move overwrites it".  It fails when the
  source is missing, when the destination's directory is missing, and when a directory would
  move into itself.
\<close>

definition rename_node :: "string list \<Rightarrow> string list \<Rightarrow> node \<Rightarrow> exn + node" where
  "rename_node a b t =
     (case resolve t a of
        None \<Rightarrow> Inl (FsError ''ENOENT'')
      | Some x \<Rightarrow>
          if a = [] \<or> b = [] \<or> strict_prefix a b then Inl (FsError ''EINVAL'')
          else if a = b then Inr t
          else if \<not> is_dir t (butlast b) then Inl (FsError ''ENOENT'')
          else Inr (update_at (butlast b) (put_entry (last b) x)
                      (update_at (butlast a) (remove_entry (last a)) t)))"


text \<open>
  Modelled from the spec: what the recursive copy of the library leaves at the destination,
  "every file and subdirectory" of the source "preserving relative structure".  An entry of
  the source replaces the entry of that name, two directories of the same name are laid over
  each other, and the other entries of the destination stay.
\<close>

fun overlay :: "node \<Rightarrow> node \<Rightarrow> node" where
  "overlay (File c) d = File c"
| "overlay (Dir es) (File c) = Dir es"
| "overlay (Dir es) (Dir ds) =
     Dir (map (\<lambda>p. (fst p, case map_of es (fst p) of
                             None \<Rightarrow> snd p
                           | Some s \<Rightarrow> overlay s (snd p))) ds
          @ filter (\<lambda>p. map_of ds (fst p) = None) es)"

text \<open>
  Modelled from the spec: the recursive copy (\<^verbatim>\<open>copy\<close>) is a library call.  The spec's
  \<^verbatim>\<open>replicateTree\<close> "recursively copies every file and subdirectory from srcDir into
  destDir, preserving relative structure, without deleting the source", and does "not fail
  merely because the destination subtree exists".  The destination is created when missing.
  The copy fails when the source is not a directory and when the destination cannot be
  created.
\<close>

definition copy_node :: "string list \<Rightarrow> string list \<Rightarrow> node \<Rightarrow> exn + node" where
  "copy_node a b t =
     (case resolve t a of
        None \<Rightarrow> Inl (FsError ''ENOENT'')
      | Some (File c) \<Rightarrow> Inl (FsError ''ENOTDIR'')
      | Some (Dir es) \<Rightarrow>
          (case mkdirp_node b t of
             Inl e \<Rightarrow> Inl e
           | Inr t1 \<Rightarrow> Inr (update_at b (overlay (Dir es)) t1)))"

section \<open>The world the module acts on\<close>

datatype level = Debug | Info | Error

datatype logarg = Msg string | Caught exn | Shown jsval

datatype fsop =
    Mkdirp jsval
  | Readdir jsval
  | Rename string string
  | Copy jsval jsval
  | WriteFile string

datatype payload = Body obj | Prim jsval

text \<open>
  \<open>fs\<close> is the file system; \<open>ops\<close> lists the file-system calls the module has
  made, in order; \<open>inflight\<close> holds the renames that were started and whose promise nobody
  holds; \<open>logged\<close> is what went to the logger; \<open>heap\<close> holds the objects the caller
  shares with the module; \<open>requests\<close> the HTTP posts, each with the body as it was sent.
\<close>

record world =
  fs :: node
  ops :: "fsop list"
  inflight :: "(string \<times> string) list"
  logged :: "(level \<times> logarg) list"
  heap :: "addr \<Rightarrow> obj"
  requests :: "(jsval \<times> payload) list"

record options =
  RAW_DATA_DIR :: jsval
  NORMALIZED_DATA_DIR :: jsval
  DOWNLOAD_DIR :: jsval
  ARCHIVED_DIR :: jsval
  ARCHIVED_RAW_DATA_DIR :: jsval
  ARCHIVED_NORMALIZED_DATA_DIR :: jsval
  ARCHIVED_DOWNLOAD_DIR :: jsval
  GET_DATASET_ENDPOINT :: jsval
  DATA_FILE :: jsval
  RUN_TASK_ENDPOINT :: jsval
  REQUESTS_PER_DAY :: jsval
  REQUEST_DEPTHS_PER_DAY :: jsval
  DAILY :: jsval
  START_DATE :: jsval
  END_DATE :: jsval
  DRY_RUN :: jsval
  SKIP_ARCHIVE_DOWNLOAD :: jsval

record config =
  INPUT :: jsval

text \<open>
  What the module calls and does not define: the day difference of the date library, the
  download, the HTTP post, and the normalizer and loader collaborators.  Each is a parameter;
  a collaborator may fail, and a run of the normalizer or the loader may change the files
  before it fails.
\<close>

record ('n, 'l) env =
  differenceInDays :: "jsval \<Rightarrow> jsval \<Rightarrow> jsnum"
  download :: "jsval \<Rightarrow> exn + string"
  axios_post :: "jsval \<Rightarrow> payload \<Rightarrow> exn option"
  normalizer_getOptions :: "options \<Rightarrow> exn + 'n"
  normalizer_run :: "'n \<Rightarrow> node \<Rightarrow> exn option \<times> node"
  loader_getOptions :: "options \<Rightarrow> exn + 'l"
  loader_run :: "'l \<Rightarrow> node \<Rightarrow> exn option \<times> node"

text \<open>
  A procedure returns a value or throws, and leaves a world either way: what was written and
  logged before a throw stays.
\<close>

type_synonym 'a proc = "world \<Rightarrow> (exn + 'a) \<times> world"

definition okP :: "'a \<Rightarrow> 'a proc" where
  "okP x w = (Inr x, w)"

definition bindP :: "'a proc \<Rightarrow> ('a \<Rightarrow> 'b proc) \<Rightarrow> 'b proc" where
  "bindP m k w = (case m w of (Inl e, w') \<Rightarrow> (Inl e, w') | (Inr x, w') \<Rightarrow> k x w')"

definition seqP :: "'a proc \<Rightarrow> 'b proc \<Rightarrow> 'b proc" where
  "seqP m k = bindP m (\<lambda>x. k)"

text \<open>\<^verbatim>\<open>try { m } catch (err) { h err }\<close>\<close>

definition tryP :: "'a proc \<Rightarrow> (exn \<Rightarrow> 'a proc) \<Rightarrow> 'a proc" where
  "tryP m h w = (case m w of (Inl e, w') \<Rightarrow> h e w' | (Inr x, w') \<Rightarrow> (Inr x, w'))"

primrec forEachP :: "('a \<Rightarrow> unit proc) \<Rightarrow> 'a list \<Rightarrow> unit proc" where
  "forEachP f [] = okP ()"
| "forEachP f (x # xs) = seqP (f x) (forEachP f xs)"

definition log_at :: "level \<Rightarrow> logarg \<Rightarrow> unit proc" where
  "log_at l a w = (Inr (), w\<lparr>logged := logged w @ [(l, a)]\<rparr>)"

subsection \<open>The library calls, on the world\<close>

definition fs_path :: "jsval \<Rightarrow> exn + string list" where
  "fs_path v = (case v of Str s \<Rightarrow> Inr (path_of s) | _ \<Rightarrow> Inl (TypeError ''ERR_INVALID_ARG_TYPE''))"

definition fs_call :: "fsop \<Rightarrow> (node \<Rightarrow> exn + node) \<Rightarrow> unit proc" where
  "fs_call op f w =
     (let w1 = w\<lparr>ops := ops w @ [op]\<rparr>
      in case f (fs w1) of Inl e \<Rightarrow> (Inl e, w1) | Inr t \<Rightarrow> (Inr (), w1\<lparr>fs := t\<rparr>))"

definition mkdirp_sync :: "jsval \<Rightarrow> unit proc" where
  "mkdirp_sync dir =
     fs_call (Mkdirp dir) (\<lambda>t. case fs_path dir of Inl e \<Rightarrow> Inl e | Inr p \<Rightarrow> mkdirp_node p t)"

definition copyAsync :: "jsval \<Rightarrow> jsval \<Rightarrow> unit proc" where
  "copyAsync src dest =
     fs_call (Copy src dest)
       (\<lambda>t. case fs_path src of
               Inl e \<Rightarrow> Inl e
             | Inr a \<Rightarrow> (case fs_path dest of Inl e \<Rightarrow> Inl e | Inr b \<Rightarrow> copy_node a b t))"


text \<open>The call of \<^verbatim>\<open>readdirAsync\<close>, and the value its promise is awaited to.\<close>

definition readdir_call :: "jsval \<Rightarrow> unit proc" where
  "readdir_call src w = (Inr (), w\<lparr>ops := ops w @ [Readdir src]\<rparr>)"

definition readdir_await :: "jsval \<Rightarrow> (string list) proc" where
  "readdir_await src w =
     (case fs_path src of
        Inl e \<Rightarrow> (Inl e, w)
      | Inr p \<Rightarrow> (case readdir_node p (fs w) of Inl e \<Rightarrow> (Inl e, w) | Inr files \<Rightarrow> (Inr files, w)))"

text \<open>
  The call of \<^verbatim>\<open>renameAsync\<close>: the rename is started and its promise returned.  Nothing
  here waits for it; the file system changes when the rename completes (\<open>settle\<close>).
\<close>

definition renameAsync :: "string \<Rightarrow> string \<Rightarrow> unit proc" where
  "renameAsync a b w =
     (Inr (), w\<lparr>ops := ops w @ [Rename a b], inflight := inflight w @ [(a, b)]\<rparr>)"

text \<open>
  Completion of the renames in flight, in the order they were started.  A rename that fails
  rejects a promise nobody holds: the file system stays as it is and nothing is logged.
\<close>

definition complete_rename :: "node \<Rightarrow> string \<times> string \<Rightarrow> node" where
  "complete_rename t ab =
     (case rename_node (path_of (fst ab)) (path_of (snd ab)) t of Inl e \<Rightarrow> t | Inr t' \<Rightarrow> t')"

definition settle :: "world \<Rightarrow> world" where
  "settle w = w\<lparr>fs := foldl complete_rename (fs w) (inflight w), inflight := []\<rparr>"


definition axios_postP :: "('n, 'l) env \<Rightarrow> jsval \<Rightarrow> jsval \<Rightarrow> unit proc" where
  "axios_postP env url data w =
     (let body = (case data of Ref a \<Rightarrow> Body (heap w a) | _ \<Rightarrow> Prim data);
          w1 = w\<lparr>requests := requests w @ [(url, body)]\<rparr>
      in case axios_post env url body of None \<Rightarrow> (Inr (), w1) | Some e \<Rightarrow> (Inl e, w1))"

text \<open>
  \<^verbatim>\<open>target.k = v\<close>, in a module that is not in strict mode: a store into an object, a
  \<^verbatim>\<open>TypeError\<close> on \<^verbatim>\<open>undefined\<close> and \<^verbatim>\<open>null\<close>, and nothing on another primitive.
\<close>

definition set_prop :: "jsval \<Rightarrow> string \<Rightarrow> jsval \<Rightarrow> unit proc" where
  "set_prop target k v w =
     (case target of
        Ref a \<Rightarrow> (Inr (), w\<lparr>heap := (heap w)(a := (heap w a)(k \<mapsto> v))\<rparr>)
      | Undefined \<Rightarrow> (Inl (TypeError ''Cannot set properties of undefined''), w)
      | Null \<Rightarrow> (Inl (TypeError ''Cannot set properties of null''), w)
      | _ \<Rightarrow> (Inr (), w))"

section \<open>The module\<close>


definition makeDir :: "jsval \<Rightarrow> unit proc" where
  "makeDir dir =
     seqP (log_at Info (Msg (''Making directory '' @ to_string dir)))
       (tryP (mkdirp_sync dir)
          (\<lambda>err. seqP (log_at Error (Msg (''Error to make dir '' @ to_string dir)))
                 (log_at Error (Caught err))))"

text \<open>
  \<^verbatim>\<open>moveFilesToDir\<close> runs up to its first \<^verbatim>\<open>await\<close> when it is called (the log line and
  the call of \<^verbatim>\<open>readdirAsync\<close>), and resumes when the listing arrives.  The callback of
  \<^verbatim>\<open>files.map\<close> has a block body with no \<^verbatim>\<open>return\<close>: it calls \<^verbatim>\<open>renameAsync\<close> and
  yields \<^verbatim>\<open>undefined\<close>, so \<^verbatim>\<open>Promise.all\<close> gets no promise to wait for.
\<close>

definition moveFilesToDir_called :: "jsval \<Rightarrow> jsval \<Rightarrow> unit proc" where
  "moveFilesToDir_called src dest =
     seqP (log_at Info (Msg (''Moving files from '' @ to_string src @ '' to '' @ to_string dest)))
       (readdir_call src)"

definition moveFilesToDir_resumed :: "jsval \<Rightarrow> jsval \<Rightarrow> unit proc" where
  "moveFilesToDir_resumed src dest =
     tryP
       (bindP (readdir_await src)
          (forEachP (\<lambda>filename.
             renameAsync (to_string src @ ''/'' @ filename) (to_string dest @ ''/'' @ filename))))
       (\<lambda>err. seqP (log_at Error
                      (Msg (''Error moving files from '' @ to_string src @ '' to '' @ to_string dest)))
              (log_at Error (Caught err)))"

definition moveFilesToDir :: "jsval \<Rightarrow> jsval \<Rightarrow> unit proc" where
  "moveFilesToDir src dest = seqP (moveFilesToDir_called src dest) (moveFilesToDir_resumed src dest)"

definition recursiveCopy :: "jsval \<Rightarrow> jsval \<Rightarrow> unit proc" where
  "recursiveCopy src dest =
     seqP (log_at Info
             (Msg (''Recursively copying files from '' @ to_string src @ '' to '' @ to_string dest)))
       (tryP (copyAsync src dest)
          (\<lambda>err. seqP (log_at Error
                         (Msg (''Error recursively copying files from '' @ to_string src
                               @ '' to '' @ to_string dest)))
                 (log_at Error (Caught err))))"

text \<open>
  \<^verbatim>\<open>startOfToday()\<close> and \<^verbatim>\<open>endOfToday()\<close> read the clock one after the other:
  \<open>t1\<close> and \<open>t2\<close> are the two readings.
\<close>

definition getDailyOptions ::
  "datetime \<Rightarrow> datetime \<Rightarrow> jsval \<Rightarrow> jsnum \<Rightarrow> jsnum \<Rightarrow> unit proc" where
  "getDailyOptions t1 t2 data requestsPerDay requestDepthsPerDay =
     seqP (set_prop data ''startDate'' (Str (format (startOfToday t1) ''MM/DD/YYYY'')))
    (seqP (set_prop data ''endDate'' (Str (format (endOfToday t2) ''MM/DD/YYYY'')))
    (seqP (set_prop data ''maxRequestsPerCrawl'' (Number requestsPerDay))
          (set_prop data ''maxRequestDepth'' (Number requestDepthsPerDay))))"

definition getDateRangeOptions ::
  "('n, 'l) env \<Rightarrow> jsval \<Rightarrow> jsnum \<Rightarrow> jsnum \<Rightarrow> jsval \<Rightarrow> jsval \<Rightarrow> unit proc" where
  "getDateRangeOptions env data requestsPerDay requestDepthsPerDay startDate endDate =
     seqP (set_prop data ''startDate'' startDate)
    (seqP (set_prop data ''endDate'' endDate)
    (let numOfDays = js_add (js_abs (differenceInDays env startDate endDate)) (Finite 1)
     in seqP (set_prop data ''maxRequestsPerCrawl'' (Number (js_mul requestsPerDay numOfDays)))
             (set_prop data ''maxRequestDepth'' (Number (js_mul requestDepthsPerDay numOfDays)))))"



definition load :: "('n, 'l) env \<Rightarrow> options \<Rightarrow> unit proc" where
  "load env options w =
     (case loader_getOptions env options of
        Inl e \<Rightarrow> (Inl e, w)
      | Inr loaderOptions \<Rightarrow>
          (case loader_run env loaderOptions (fs w) of
             (Some e, t) \<Rightarrow> (Inl e, w\<lparr>fs := t\<rparr>)
           | (None, t) \<Rightarrow> (Inr (), w\<lparr>fs := t\<rparr>)))"

text \<open>
  \<open>now\<close> is the reading of \<^verbatim>\<open>new Date()\<close>.  The two moves are called one after the
  other and resumed in the order of the calls.
\<close>

definition archive :: "datetime \<Rightarrow> options \<Rightarrow> unit proc" where
  "archive now options =
     (let archivedDir = js_or (ARCHIVED_DIR options) (Str ''archived'');
          downloadDir = DOWNLOAD_DIR options;
          rawDataDir = RAW_DATA_DIR options;
          normalizedDataDir = NORMALIZED_DATA_DIR options;
          year = format now ''YYYY'';
          month = format now ''MM'';
          day = format now ''DD'';
          datedArchivedDir = to_string archivedDir @ ''/'' @ year @ ''/'' @ month @ ''/'' @ day;
          archivedRawDataDir =
            js_or (ARCHIVED_RAW_DATA_DIR options) (Str (datedArchivedDir @ ''/raw''));
          archivedNormalizedDataDir =
            js_or (ARCHIVED_NORMALIZED_DATA_DIR options) (Str (datedArchivedDir @ ''/normalized''))
      in seqP (makeDir (Str datedArchivedDir))
        (seqP (makeDir archivedRawDataDir)
        (seqP (makeDir archivedNormalizedDataDir)
        (seqP (moveFilesToDir_called rawDataDir archivedRawDataDir)
        (seqP (moveFilesToDir_called normalizedDataDir archivedNormalizedDataDir)
        (seqP (moveFilesToDir_resumed rawDataDir archivedRawDataDir)
        (seqP (moveFilesToDir_resumed normalizedDataDir archivedNormalizedDataDir)
        (if \<not> truthy (SKIP_ARCHIVE_DOWNLOAD options) then
           (let archivedDownloadDir =
                  js_or (ARCHIVED_DOWNLOAD_DIR options) (Str (datedArchivedDir @ ''/download''))
            in seqP (makeDir archivedDownloadDir) (recursiveCopy downloadDir archivedDownloadDir))
         else okP ()))))))))"

definition scrape ::
  "datetime \<Rightarrow> datetime \<Rightarrow> ('n, 'l) env \<Rightarrow> options \<Rightarrow> config \<Rightarrow> unit proc" where
  "scrape t1 t2 env options config =
     seqP (log_at Info (Msg ''Input config:''))
    (seqP (log_at Info (Shown (INPUT config)))
    (let data = INPUT config
     in seqP (if truthy (DRY_RUN options) then
                seqP (set_prop data ''isTestRun'' (Boolean True))
                     (set_prop data ''logLevel'' (Number (Finite 5)))
              else okP ())
       (let requestsPerDay = parseInt (REQUESTS_PER_DAY options);
            requestDepthsPerDay = parseInt (REQUEST_DEPTHS_PER_DAY options)
        in seqP (if truthy (DAILY options) then
                   getDailyOptions t1 t2 data requestsPerDay requestDepthsPerDay
                 else if truthy (START_DATE options) \<and> truthy (END_DATE options) then
                   getDateRangeOptions env data requestsPerDay requestDepthsPerDay
                     (START_DATE options) (END_DATE options)
                 else log_at Error (Msg ''Invalid command!''))
          (seqP (log_at Debug (Msg ''Running Task with options:''))
          (seqP (log_at Debug (Shown data))
                (axios_postP env (RUN_TASK_ENDPOINT options) data))))))"



section \<open>Notions the statements use\<close>

text \<open>The error-level lines of the log.\<close>

definition error_lines :: "world \<Rightarrow> (level \<times> logarg) list" where
  "error_lines w = filter (\<lambda>x. fst x = Error) (logged w)"

text \<open>
  What \<^verbatim>\<open>scrape\<close> stores into the object \<^verbatim>\<open>config.INPUT\<close>: the two dry-run fields,
  then the schedule fields of the mode the options select.
\<close>

definition dry_run_fields :: "options \<Rightarrow> obj \<Rightarrow> obj" where
  "dry_run_fields options ob =
     (if truthy (DRY_RUN options)
      then ob(''isTestRun'' \<mapsto> Boolean True, ''logLevel'' \<mapsto> Number (Finite 5))
      else ob)"

definition schedule_fields ::
  "datetime \<Rightarrow> datetime \<Rightarrow> ('n, 'l) env \<Rightarrow> options \<Rightarrow> obj \<Rightarrow> obj" where
  "schedule_fields t1 t2 env options ob =
     (if truthy (DAILY options) then
        ob(''startDate'' \<mapsto> Str (format (startOfToday t1) ''MM/DD/YYYY''),
           ''endDate'' \<mapsto> Str (format (endOfToday t2) ''MM/DD/YYYY''),
           ''maxRequestsPerCrawl'' \<mapsto> Number (parseInt (REQUESTS_PER_DAY options)),
           ''maxRequestDepth'' \<mapsto> Number (parseInt (REQUEST_DEPTHS_PER_DAY options)))
      else if truthy (START_DATE options) \<and> truthy (END_DATE options) then
        ob(''startDate'' \<mapsto> START_DATE options,
           ''endDate'' \<mapsto> END_DATE options,
           ''maxRequestsPerCrawl'' \<mapsto>
              Number (js_mul (parseInt (REQUESTS_PER_DAY options))
                 (js_add (js_abs (differenceInDays env (START_DATE options) (END_DATE options)))
                    (Finite 1))),
           ''maxRequestDepth'' \<mapsto>
              Number (js_mul (parseInt (REQUEST_DEPTHS_PER_DAY options))
                 (js_add (js_abs (differenceInDays env (START_DATE options) (END_DATE options)))
                    (Finite 1))))
      else ob)"

subsection \<open>Concrete data\<close>

text \<open>The number of a day of the Gregorian calendar, counted from a fixed day.\<close>

definition civil_day_number :: "int \<Rightarrow> int \<Rightarrow> int \<Rightarrow> int" where
  "civil_day_number y m d =
     (let y' = (if m \<le> 2 then y - 1 else y);
          m' = (if m \<le> 2 then m + 9 else m - 3)
      in 365 * y' + y' div 4 - y' div 100 + y' div 400 + (153 * m' + 2) div 5 + d - 1)"

text \<open>The day a text of the form \<^verbatim>\<open>YYYY-MM-DD\<close> names.\<close>

definition iso_day :: "jsval \<Rightarrow> int option" where
  "iso_day v =
     (case v of
        Str s \<Rightarrow>
          if length s = 10 \<and> s ! 4 = CHR ''-'' \<and> s ! 7 = CHR ''-''
             \<and> list_all is_digit (take 4 s @ take 2 (drop 5 s) @ drop 8 s)
          then Some (civil_day_number (decimal (take 4 s)) (decimal (take 2 (drop 5 s)))
                       (decimal (drop 8 s)))
          else None
      | _ \<Rightarrow> None)"

text \<open>
  Modelled from the spec: an instance of \<^verbatim>\<open>differenceInDays\<close> of the date library, for
  calendar dates written \<^verbatim>\<open>YYYY-MM-DD\<close> (the spec's scenario runs from 2024-01-01 to
  2024-01-05): the days from the second date to the first, and \<^verbatim>\<open>NaN\<close> for any other
  value.  The module's functions take the day difference as a parameter; this instance is for
  the runs on concrete dates.
\<close>

definition calendar_day_difference :: "jsval \<Rightarrow> jsval \<Rightarrow> jsnum" where
  "calendar_day_difference a b =
     (case iso_day a of
        None \<Rightarrow> NaN
      | Some x \<Rightarrow> (case iso_day b of None \<Rightarrow> NaN | Some y \<Rightarrow> Finite (x - y)))"

text \<open>
  Collaborators for the concrete runs: the download and the post succeed, the normalizer
  succeeds and the loader fails.
\<close>

definition sample_env :: "(unit, unit) env" where
  "sample_env =
     \<lparr>differenceInDays = calendar_day_difference,
      download = (\<lambda>url. Inr ''[]''),
      axios_post = (\<lambda>url body. None),
      normalizer_getOptions = (\<lambda>options. Inr ()),
      normalizer_run = (\<lambda>c t. (None, t)),
      loader_getOptions = (\<lambda>options. Inr ()),
      loader_run = (\<lambda>c t. (Some (Failure ''load failed''), t))\<rparr>"

text \<open>The options of the spec's daily scenario: 100 requests and depth 3 per day.\<close>

definition sample_options :: options where
  "sample_options =
     \<lparr>RAW_DATA_DIR = Str ''raw'',
      NORMALIZED_DATA_DIR = Str ''norm'',
      DOWNLOAD_DIR = Str ''dl'',
      ARCHIVED_DIR = Str ''archived'',
      ARCHIVED_RAW_DATA_DIR = Undefined,
      ARCHIVED_NORMALIZED_DATA_DIR = Undefined,
      ARCHIVED_DOWNLOAD_DIR = Undefined,
      GET_DATASET_ENDPOINT = Str ''http://host/dataset'',
      DATA_FILE = Str ''data.json'',
      RUN_TASK_ENDPOINT = Str ''http://host/run'',
      REQUESTS_PER_DAY = Str ''100'',
      REQUEST_DEPTHS_PER_DAY = Str ''3'',
      DAILY = Boolean True,
      START_DATE = Undefined,
      END_DATE = Undefined,
      DRY_RUN = Undefined,
      SKIP_ARCHIVE_DOWNLOAD = Undefined\<rparr>"

definition sample_day :: datetime where
  "sample_day = \<lparr>dt_year = 2024, dt_month = 3, dt_day = 7, dt_hours = 10, dt_minutes = 30,
                  dt_seconds = 0, dt_millis = 0\<rparr>"

definition sample_tree :: node where
  "sample_tree =
     Dir [(''raw'', Dir [(''data.json'', File ''[1]'')]),
          (''norm'', Dir [(''data.csv'', File ''1'')]),
          (''dl'', Dir [(''page.html'', File ''<p>'')])]"

definition template :: obj where
  "template = [''query'' \<mapsto> Str ''shoes'']"

definition world_of :: "node \<Rightarrow> world" where
  "world_of t = \<lparr>fs = t, ops = [], inflight = [], logged = [],
                 heap = (\<lambda>a. template), requests = []\<rparr>"

definition sample_world :: world where
  "sample_world = world_of sample_tree"

section \<open>Procedures that return\<close>

lemma seqP_nothrow: "fst (m w) = Inr x \<Longrightarrow> seqP m k w = k (snd (m w))"
  by (cases "m w") (simp add: seqP_def bindP_def)

lemma seqP_ok: "m w = (Inr x, w') \<Longrightarrow> seqP m k w = k w'"
  by (simp add: seqP_def bindP_def)

lemma log_at_ok: "log_at l a w = (Inr (), w\<lparr>logged := logged w @ [(l, a)]\<rparr>)"
  by (simp add: log_at_def)

lemma catch_log_ok:
  "tryP m (\<lambda>err. seqP (log_at l1 a1) (log_at l2 (Caught err))) w =
     (case m w of
        (Inl e, w') \<Rightarrow> (Inr (), w'\<lparr>logged := logged w' @ [(l1, a1), (l2, Caught e)]\<rparr>)
      | (Inr x, w') \<Rightarrow> (Inr x, w'))"
  by (simp add: tryP_def seqP_def bindP_def log_at_def split: prod.splits sum.splits)


section \<open>Dates as text\<close>

lemma format_mdy:
  "format d ''MM/DD/YYYY'' =
     zero_pad 2 (dt_month d) @ ''/'' @ zero_pad 2 (dt_day d) @ ''/'' @ zero_pad 4 (dt_year d)"
  by (simp add: format.simps)




lemma zero_pad_2024: "zero_pad 4 2024 = ''2024''" "zero_pad 2 3 = ''03''" "zero_pad 2 7 = ''07''"
  by (simp_all add: zero_pad_def digits.simps)

lemma format_sample:
  "format (startOfToday sample_day) ''MM/DD/YYYY'' = ''03/07/2024''"
  "format (endOfToday sample_day) ''MM/DD/YYYY'' = ''03/07/2024''"
  by (simp_all add: format_mdy startOfToday_def endOfToday_def sample_day_def zero_pad_2024)

lemma parseInt_sample:
  "parseInt (Str ''100'') = Finite 100" "parseInt (Str ''3'') = Finite 3"
  "parseInt (Str ''10'') = Finite 10" "parseInt (Str ''2'') = Finite 2"
  by (simp_all add: parseInt_def is_space_def is_digit_def digit_value_def decimal_def Let_def)

lemma calendar_day_difference_sample:
  "calendar_day_difference (Str ''2024-01-01'') (Str ''2024-01-05'') = Finite (- 4)"
  by (simp add: calendar_day_difference_def iso_day_def is_digit_def decimal_def digit_value_def
        civil_day_number_def)

section \<open>The file tree\<close>

lemma map_of_update: "map_of (AList.update k v al) k' = (if k' = k then Some v else map_of al k')"
  by (simp add: update_conv')

lemma update_same: "map_of al k = Some v \<Longrightarrow> AList.update k v al = al"
  by (induction al) auto

lemma mkdirp_existing: "is_dir t p \<Longrightarrow> mkdirp_node p t = Inr t"
proof (induction p arbitrary: t)
  case Nil
  then show ?case by (cases t) (simp_all add: is_dir_def)
next
  case (Cons n p)
  then obtain es where t: "t = Dir es" by (cases t) (simp_all add: is_dir_def)
  with Cons.prems obtain c where c: "map_of es n = Some c" and d: "is_dir c p"
    by (auto simp: is_dir_def split: option.splits)
  from Cons.IH [OF d] show ?case by (simp add: t c update_same)
qed

lemma mkdirp_is_dir: "mkdirp_node p t = Inr t' \<Longrightarrow> is_dir t' p"
proof (induction p arbitrary: t t')
  case Nil
  then show ?case by (cases t) (auto simp: is_dir_def)
next
  case (Cons n p)
  then obtain es where t: "t = Dir es" by (cases t) simp_all
  with Cons.prems obtain c' where
    m: "mkdirp_node p (case map_of es n of None \<Rightarrow> Dir [] | Some c \<Rightarrow> c) = Inr c'"
    and t': "t' = Dir (AList.update n c' es)"
    by (auto split: sum.splits)
  from Cons.IH [OF m] show ?case by (simp add: t' is_dir_def map_of_update)
qed

text \<open>Creating a directory changes nothing at a path that is not one of its ancestors.\<close>

lemma mkdirp_resolve_other:
  "mkdirp_node p t = Inr t' \<Longrightarrow> \<not> prefix q p \<Longrightarrow> resolve t' q = resolve t q"
proof (induction p arbitrary: t t' q)
  case Nil
  then show ?case by (cases t) auto
next
  case (Cons n p)
  then obtain es where t: "t = Dir es" by (cases t) simp_all
  with Cons.prems obtain c' where
    m: "mkdirp_node p (case map_of es n of None \<Rightarrow> Dir [] | Some c \<Rightarrow> c) = Inr c'"
    and t': "t' = Dir (AList.update n c' es)"
    by (auto split: sum.splits)
  from Cons.prems obtain k q' where q: "q = k # q'" by (cases q) auto
  show ?case
  proof (cases "k = n")
    case False
    then show ?thesis by (simp add: t t' q map_of_update)
  next
    case True
    with Cons.prems q have np: "\<not> prefix q' p" by simp
    from Cons.IH [OF m np]
    have r: "resolve c' q' = resolve (case map_of es n of None \<Rightarrow> Dir [] | Some c \<Rightarrow> c) q'" .
    from np obtain x q'' where "q' = x # q''" by (cases q') auto
    with r show ?thesis by (simp add: t t' q True map_of_update split: option.splits)
  qed
qed

lemma resolve_append:
  "resolve t (p @ q) = (case resolve t p of None \<Rightarrow> None | Some x \<Rightarrow> resolve x q)"
proof (induction p arbitrary: t)
  case Nil
  then show ?case by simp
next
  case (Cons n p)
  then show ?case by (cases t) (simp_all split: option.splits)
qed

lemma resolve_update_at_other:
  "\<not> prefix p q \<Longrightarrow> \<not> prefix q p \<Longrightarrow> resolve (update_at p f t) q = resolve t q"
proof (induction p arbitrary: t q)
  case Nil
  then show ?case by simp
next
  case (Cons n p)
  from Cons.prems obtain k q' where q: "q = k # q'" by (cases q) auto
  show ?case
  proof (cases t)
    case (File c)
    then show ?thesis by simp
  next
    case (Dir es)
    show ?thesis
    proof (cases "map_of es n")
      case None
      then show ?thesis by (simp add: Dir)
    next
      case (Some c)
      show ?thesis
      proof (cases "k = n")
        case False
        then show ?thesis by (simp add: Dir Some q map_of_update)
      next
        case True
        with Cons.prems q have "\<not> prefix p q'" "\<not> prefix q' p" by simp_all
        from Cons.IH [OF this] show ?thesis by (simp add: Dir Some q True map_of_update)
      qed
    qed
  qed
qed

lemma resolve_update_at_same:
  "resolve t p = Some x \<Longrightarrow> resolve (update_at p f t) (p @ q) = resolve (f x) q"
proof (induction p arbitrary: t)
  case Nil
  then show ?case by simp
next
  case (Cons n p)
  then show ?case by (cases t) (auto simp: map_of_update split: option.splits)
qed

lemma map_of_map_keyed:
  "map_of (map (\<lambda>p. (fst p, h (fst p) (snd p))) ds) n = map_option (h n) (map_of ds n)"
  by (induction ds) auto

lemma map_of_filter_key:
  "P n \<Longrightarrow> map_of (filter (\<lambda>p. P (fst p)) es) n = map_of es n"
  by (induction es) auto

lemma overlay_children:
  "map_of (map (\<lambda>p. (fst p, case map_of es (fst p) of
                               None \<Rightarrow> snd p
                             | Some s \<Rightarrow> overlay s (snd p))) ds
          @ filter (\<lambda>p. map_of ds (fst p) = None) es) n
   = (case map_of ds n of
        None \<Rightarrow> map_of es n
      | Some d \<Rightarrow> Some (case map_of es n of None \<Rightarrow> d | Some s \<Rightarrow> overlay s d))"
proof -
  have a: "map_of (map (\<lambda>p. (fst p, case map_of es (fst p) of
                                      None \<Rightarrow> snd p
                                    | Some s \<Rightarrow> overlay s (snd p))) ds) n
     = map_option (\<lambda>d. case map_of es n of None \<Rightarrow> d | Some s \<Rightarrow> overlay s d) (map_of ds n)"
    using map_of_map_keyed [of "\<lambda>k d. case map_of es k of None \<Rightarrow> d | Some s \<Rightarrow> overlay s d" ds n]
    by simp
  show ?thesis
    by (cases "map_of ds n")
      (simp_all add: map_of_append a map_add_def map_of_filter_key [of "\<lambda>k. map_of ds k = None"])
qed

text \<open>Every file and every directory of the source is in the overlay, at the same path.\<close>

lemma overlay_file:
  "resolve s q = Some (File c) \<Longrightarrow> resolve (overlay s d) q = Some (File c)"
proof (induction q arbitrary: s d)
  case Nil
  then show ?case by simp
next
  case (Cons n q)
  then obtain es s' where s: "s = Dir es" and e: "map_of es n = Some s'"
    and r: "resolve s' q = Some (File c)"
    by (cases s) (auto split: option.splits)
  show ?case
  proof (cases d)
    case (File x)
    then show ?thesis using e r by (simp add: s)
  next
    case (Dir ds)
    show ?thesis
      using e r Cons.IH [OF r]
      by (cases "map_of ds n")
        (simp_all add: s Dir overlay_children del: map_append map_of_append)
  qed
qed

lemma overlay_dir: "is_dir s q \<Longrightarrow> is_dir (overlay s d) q"
proof (induction q arbitrary: s d)
  case Nil
  then show ?case by (cases s; cases d) (simp_all add: is_dir_def)
next
  case (Cons n q)
  then obtain es s' where s: "s = Dir es" and e: "map_of es n = Some s'" and r: "is_dir s' q"
    by (cases s) (auto simp: is_dir_def split: option.splits)
  show ?case
  proof (cases d)
    case (File x)
    then show ?thesis using e r by (simp add: s is_dir_def)
  next
    case (Dir ds)
    show ?thesis
      using e r Cons.IH [OF r]
      by (cases "map_of ds n")
        (simp_all add: s Dir is_dir_def overlay_children del: map_append map_of_append)
  qed
qed

lemma copy_node_source_kept:
  assumes "copy_node a b t = Inr t'" "\<not> prefix a b" "\<not> prefix b a"
  shows "resolve t' a = resolve t a"
proof -
  from assms(1) obtain es t1 where
    m: "mkdirp_node b t = Inr t1" and t': "t' = update_at b (overlay (Dir es)) t1"
    by (auto simp: copy_node_def split: option.splits node.splits sum.splits)
  have "resolve t' a = resolve t1 a"
    unfolding t' by (rule resolve_update_at_other [OF assms(3) assms(2)])
  also have "\<dots> = resolve t a"
    using m assms(2) by (rule mkdirp_resolve_other)
  finally show ?thesis .
qed

lemma fs_path_Str: "fs_path (Str s) = Inr (path_of s)"
  by (simp add: fs_path_def)

lemma fs_path_Inr: "fs_path dir = Inr p \<Longrightarrow> dir = Str (to_string dir) \<and> p = path_of (to_string dir)"
  by (cases dir) (auto simp: fs_path_def)


lemma sample_paths:
  "path_of ''raw'' = [''raw'']" "path_of ''norm'' = [''norm'']" "path_of ''dl'' = [''dl'']"
  "path_of ''arch'' = [''arch'']" "path_of ''dl/bak'' = [''dl'', ''bak'']"
  "path_of ''x'' = [''x'']" "path_of ''x/y'' = [''x'', ''y'']" "path_of ''a/b'' = [''a'', ''b'']"
  "path_of ''raw/a.json'' = [''raw'', ''a.json'']" "path_of ''arch/a.json'' = [''arch'', ''a.json'']"
  "path_of ''archived/2024'' = [''archived'', ''2024'']"
  by (simp_all add: path_of_def)

section \<open>What each function of the module does to the world\<close>

lemma makeDir_eval:
  "makeDir dir w =
     (Inr (),
      case (case fs_path dir of Inl e \<Rightarrow> Inl e | Inr p \<Rightarrow> mkdirp_node p (fs w)) of
        Inr t \<Rightarrow> w\<lparr>fs := t, ops := ops w @ [Mkdirp dir],
                   logged := logged w @ [(Info, Msg (''Making directory '' @ to_string dir))]\<rparr>
      | Inl e \<Rightarrow> w\<lparr>ops := ops w @ [Mkdirp dir],
                   logged := logged w @ [(Info, Msg (''Making directory '' @ to_string dir)),
                                         (Error, Msg (''Error to make dir '' @ to_string dir)),
                                         (Error, Caught e)]\<rparr>)"
  by (simp add: makeDir_def seqP_nothrow [of _ _ "()"] log_at_ok catch_log_ok mkdirp_sync_def
        fs_call_def Let_def split: sum.splits)

lemma fst_makeDir: "fst (makeDir dir w) = Inr ()"
  by (simp add: makeDir_eval)


lemma fs_makeDir:
  "fs (snd (makeDir dir w)) =
     (case fs_path dir of
        Inl e \<Rightarrow> fs w
      | Inr p \<Rightarrow> (case mkdirp_node p (fs w) of Inl e \<Rightarrow> fs w | Inr t \<Rightarrow> t))"
  by (simp add: makeDir_eval split: sum.splits)

lemma errors_makeDir:
  "error_lines (snd (makeDir dir w)) =
     error_lines w @
     (case (case fs_path dir of Inl e \<Rightarrow> Inl e | Inr p \<Rightarrow> mkdirp_node p (fs w)) of
        Inl e \<Rightarrow> [(Error, Msg (''Error to make dir '' @ to_string dir)), (Error, Caught e)]
      | Inr t \<Rightarrow> [])"
  by (simp add: makeDir_eval error_lines_def split: sum.splits)



lemma recursiveCopy_eval:
  "recursiveCopy src dest w =
     (Inr (),
      case (case fs_path src of
              Inl e \<Rightarrow> Inl e
            | Inr a \<Rightarrow> (case fs_path dest of Inl e \<Rightarrow> Inl e | Inr b \<Rightarrow> copy_node a b (fs w))) of
        Inr t \<Rightarrow> w\<lparr>fs := t, ops := ops w @ [Copy src dest],
                   logged := logged w @ [(Info, Msg (''Recursively copying files from ''
                                                  @ to_string src @ '' to '' @ to_string dest))]\<rparr>
      | Inl e \<Rightarrow> w\<lparr>ops := ops w @ [Copy src dest],
                   logged := logged w @ [(Info, Msg (''Recursively copying files from ''
                                                  @ to_string src @ '' to '' @ to_string dest)),
                                         (Error, Msg (''Error recursively copying files from ''
                                                  @ to_string src @ '' to '' @ to_string dest)),
                                         (Error, Caught e)]\<rparr>)"
  by (simp add: recursiveCopy_def seqP_nothrow [of _ _ "()"] log_at_ok catch_log_ok copyAsync_def
        fs_call_def Let_def split: sum.splits)

lemma fst_recursiveCopy: "fst (recursiveCopy src dest w) = Inr ()"
  by (simp add: recursiveCopy_eval)


lemma errors_recursiveCopy:
  "error_lines (snd (recursiveCopy src dest w)) =
     error_lines w @
     (case (case fs_path src of
              Inl e \<Rightarrow> Inl e
            | Inr a \<Rightarrow> (case fs_path dest of Inl e \<Rightarrow> Inl e | Inr b \<Rightarrow> copy_node a b (fs w))) of
        Inl e \<Rightarrow> [(Error, Msg (''Error recursively copying files from '' @ to_string src
                               @ '' to '' @ to_string dest)),
                  (Error, Caught e)]
      | Inr t \<Rightarrow> [])"
  by (simp add: recursiveCopy_eval error_lines_def split: sum.splits)


lemma moveFilesToDir_called_eval:
  "moveFilesToDir_called src dest w =
     (Inr (), w\<lparr>logged := logged w @ [(Info, Msg (''Moving files from '' @ to_string src
                                                 @ '' to '' @ to_string dest))],
               ops := ops w @ [Readdir src]\<rparr>)"
  by (simp add: moveFilesToDir_called_def seqP_nothrow [of _ _ "()"] log_at_ok readdir_call_def)

lemma forEachP_rename:
  "forEachP (\<lambda>f. renameAsync (A f) (B f)) files w =
     (Inr (), w\<lparr>ops := ops w @ map (\<lambda>f. Rename (A f) (B f)) files,
               inflight := inflight w @ map (\<lambda>f. (A f, B f)) files\<rparr>)"
proof (induction files arbitrary: w)
  case Nil
  then show ?case by (simp add: okP_def)
next
  case (Cons f files)
  have "fst (renameAsync (A f) (B f) w) = Inr ()" by (simp add: renameAsync_def)
  then show ?case
    by (simp add: seqP_nothrow [of _ _ "()"] Cons.IH) (simp add: renameAsync_def)
qed

lemma readdir_await_eval:
  "readdir_await src w =
     (case fs_path src of Inl e \<Rightarrow> Inl e | Inr p \<Rightarrow> readdir_node p (fs w), w)"
  by (simp add: readdir_await_def split: sum.splits)


lemma moveFilesToDir_resumed_eval:
  "moveFilesToDir_resumed src dest w =
     (Inr (),
      case fst (readdir_await src w) of
        Inr files \<Rightarrow>
          w\<lparr>ops := ops w @ map (\<lambda>f. Rename (to_string src @ ''/'' @ f)
                                         (to_string dest @ ''/'' @ f)) files,
            inflight := inflight w @ map (\<lambda>f. (to_string src @ ''/'' @ f,
                                               to_string dest @ ''/'' @ f)) files\<rparr>
      | Inl e \<Rightarrow>
          w\<lparr>logged := logged w @ [(Error, Msg (''Error moving files from '' @ to_string src
                                               @ '' to '' @ to_string dest)),
                                  (Error, Caught e)]\<rparr>)"
  by (simp add: moveFilesToDir_resumed_def catch_log_ok bindP_def readdir_await_eval
        forEachP_rename split: sum.splits)

lemma fst_called: "fst (moveFilesToDir_called src dest w) = Inr ()"
  by (simp add: moveFilesToDir_called_eval)

lemma fst_resumed: "fst (moveFilesToDir_resumed src dest w) = Inr ()"
  by (simp add: moveFilesToDir_resumed_eval)


lemma fs_called: "fs (snd (moveFilesToDir_called src dest w)) = fs w"
  by (simp add: moveFilesToDir_called_eval)

lemma fs_resumed: "fs (snd (moveFilesToDir_resumed src dest w)) = fs w"
  by (simp add: moveFilesToDir_resumed_eval split: sum.splits)


text \<open>
  A call of \<^verbatim>\<open>moveFilesToDir\<close> returns without an exception and with the file system as
  it found it: the renames it started are in flight.
\<close>

lemma moveFilesToDir_fs:
  "fst (moveFilesToDir src dest w) = Inr () \<and> fs (snd (moveFilesToDir src dest w)) = fs w"
  by (simp add: moveFilesToDir_def seqP_nothrow [of _ _ "()"] fst_called fst_resumed fs_called
        fs_resumed)

lemmas archive_steps =
  seqP_nothrow [of _ _ "()"] fst_makeDir fst_called fst_resumed fst_recursiveCopy

lemma archive_never_raises: "fst (archive now options w) = Inr ()"
  by (simp add: archive_def Let_def archive_steps okP_def)

lemma set_prop_Ref:
  "set_prop (Ref a) k v w = (Inr (), w\<lparr>heap := (heap w)(a := (heap w a)(k \<mapsto> v))\<rparr>)"
  by (simp add: set_prop_def)

lemma getDateRangeOptions_Ref:
  "getDateRangeOptions env (Ref a) r d s e w =
     (Inr (), w\<lparr>heap := (heap w)(a := (heap w a)(''startDate'' \<mapsto> s, ''endDate'' \<mapsto> e,
         ''maxRequestsPerCrawl'' \<mapsto>
            Number (js_mul r (js_add (js_abs (differenceInDays env s e)) (Finite 1))),
         ''maxRequestDepth'' \<mapsto>
            Number (js_mul d (js_add (js_abs (differenceInDays env s e)) (Finite 1)))))\<rparr>)"
  by (simp add: getDateRangeOptions_def okP_def bindP_def seqP_def set_prop_def Let_def)

lemma getDailyOptions_Ref:
  "getDailyOptions t1 t2 (Ref a) r d w =
     (Inr (), w\<lparr>heap := (heap w)(a := (heap w a)(
         ''startDate'' \<mapsto> Str (format (startOfToday t1) ''MM/DD/YYYY''),
         ''endDate'' \<mapsto> Str (format (endOfToday t2) ''MM/DD/YYYY''),
         ''maxRequestsPerCrawl'' \<mapsto> Number r,
         ''maxRequestDepth'' \<mapsto> Number d))\<rparr>)"
  by (simp add: getDailyOptions_def okP_def bindP_def seqP_def set_prop_def)

lemma dry_run_step:
  "(if truthy (DRY_RUN options) then
      seqP (set_prop (Ref a) ''isTestRun'' (Boolean True))
           (set_prop (Ref a) ''logLevel'' (Number (Finite 5)))
    else okP ()) w
   = (Inr (), w\<lparr>heap := (heap w)(a := dry_run_fields options (heap w a))\<rparr>)"
  by (simp add: dry_run_fields_def set_prop_Ref seqP_def bindP_def okP_def)

lemma schedule_step:
  "(if truthy (DAILY options) then
      getDailyOptions t1 t2 (Ref a) (parseInt (REQUESTS_PER_DAY options))
        (parseInt (REQUEST_DEPTHS_PER_DAY options))
    else if truthy (START_DATE options) \<and> truthy (END_DATE options) then
      getDateRangeOptions env (Ref a) (parseInt (REQUESTS_PER_DAY options))
        (parseInt (REQUEST_DEPTHS_PER_DAY options)) (START_DATE options) (END_DATE options)
    else log_at Error (Msg ''Invalid command!'')) w
   = (Inr (), w\<lparr>heap := (heap w)(a := schedule_fields t1 t2 env options (heap w a)),
        logged := logged w @
          (if \<not> truthy (DAILY options)
              \<and> \<not> (truthy (START_DATE options) \<and> truthy (END_DATE options))
           then [(Error, Msg ''Invalid command!'')] else [])\<rparr>)"
  by (simp add: schedule_fields_def getDailyOptions_Ref getDateRangeOptions_Ref log_at_ok)

text \<open>
  \<^verbatim>\<open>scrape\<close> on a template object: everything up to the post returns, and the post is made
  from the world these steps leave.
\<close>

lemma scrape_Ref:
  "scrape t1 t2 env options \<lparr>INPUT = Ref a\<rparr> w =
     axios_postP env (RUN_TASK_ENDPOINT options) (Ref a)
       (w\<lparr>heap := (heap w)(a := schedule_fields t1 t2 env options
                                  (dry_run_fields options (heap w a))),
          logged := logged w @ [(Info, Msg ''Input config:''), (Info, Shown (Ref a))]
            @ (if \<not> truthy (DAILY options)
                  \<and> \<not> (truthy (START_DATE options) \<and> truthy (END_DATE options))
               then [(Error, Msg ''Invalid command!'')] else [])
            @ [(Debug, Msg ''Running Task with options:''), (Debug, Shown (Ref a))]\<rparr>)"
  unfolding scrape_def Let_def config.simps
  apply (subst seqP_ok [OF log_at_ok])
  apply (subst seqP_ok [OF log_at_ok])
  apply (subst seqP_ok [OF dry_run_step])
  apply (subst seqP_ok [OF schedule_step])
  apply (subst seqP_ok [OF log_at_ok])
  apply (subst seqP_ok [OF log_at_ok])
  apply simp
  done

lemma heap_post: "heap (snd (axios_postP env u d w)) = heap w"
  by (simp add: axios_postP_def Let_def split: option.splits)

lemma requests_post:
  "requests (snd (axios_postP env u (Ref a) w)) = requests w @ [(u, Body (heap w a))]"
  by (simp add: axios_postP_def Let_def split: option.splits)

lemma logged_post: "logged (snd (axios_postP env u d w)) = logged w"
  by (simp add: axios_postP_def Let_def split: option.splits)

text \<open>Steps that add no error line to the log.\<close>

lemma quiet_seqP:
  assumes "\<And>w. error_lines (snd (m w)) = error_lines w"
    and "\<And>w. error_lines (snd (k w)) = error_lines w"
  shows "error_lines (snd (seqP m k w)) = error_lines w"
proof (cases "m w")
  case (Pair r w1)
  with assms(1) [of w] have w1: "error_lines w1 = error_lines w" by simp
  show ?thesis
  proof (cases r)
    case (Inl e)
    with Pair w1 show ?thesis by (simp add: seqP_def bindP_def)
  next
    case (Inr x)
    with Pair w1 assms(2) [of w1] show ?thesis by (simp add: seqP_def bindP_def)
  qed
qed

lemma quiet_set_prop: "error_lines (snd (set_prop t k v w)) = error_lines w"
  by (cases t) (simp_all add: set_prop_def error_lines_def)

lemma quiet_log: "l \<noteq> Error \<Longrightarrow> error_lines (snd (log_at l a w)) = error_lines w"
  by (simp add: log_at_def error_lines_def)

lemma quiet_post: "error_lines (snd (axios_postP env u d w)) = error_lines w"
  by (simp add: logged_post error_lines_def)

lemma quiet_okP: "error_lines (snd (okP x w)) = error_lines w"
  by (simp add: okP_def)

lemma quiet_getDailyOptions:
  "error_lines (snd (getDailyOptions t1 t2 data r d w)) = error_lines w"
  unfolding getDailyOptions_def by (intro quiet_seqP quiet_set_prop)


section \<open>The claims\<close>

subsection \<open>C1: a configuration with no schedule\<close>

text \<open>
  C1 says that options with neither the daily flag nor both dates are rejected as a
  configuration error, and that the pipeline does not go on as if configured.  The run below
  has the options of the daily scenario with the daily flag taken away and no dates:
  \<^verbatim>\<open>scrape\<close> logs \<^verbatim>\<open>Invalid command!\<close> at error level, then goes on, posts the
  template as it stands to the task endpoint, and returns without an exception.
\<close>

theorem scrape_without_schedule_still_posts:
  "(let r = scrape sample_day sample_day sample_env (sample_options\<lparr>DAILY := Undefined\<rparr>)
              \<lparr>INPUT = Ref 0\<rparr> sample_world
    in fst r = Inr ()
     \<and> logged (snd r) = [(Info, Msg ''Input config:''), (Info, Shown (Ref 0)),
                          (Error, Msg ''Invalid command!''),
                          (Debug, Msg ''Running Task with options:''), (Debug, Shown (Ref 0))]
     \<and> requests (snd r) = [(Str ''http://host/run'', Body template)])"
  by (simp add: scrape_Ref axios_postP_def sample_options_def sample_env_def sample_world_def
        world_of_def dry_run_fields_def schedule_fields_def Let_def)

subsection \<open>C2: the schedule of a date range\<close>

text \<open>
  C2: in date-range mode the start and end dates are stored as supplied, the number of days is
  the absolute value of the date library's day difference between them plus one, and the two
  budgets are the per-day values times that number, for every per-day value and every pair of
  dates.  On integers the product is \<open>x * (\<bar>k\<bar> + 1)\<close>; a \<^verbatim>\<open>NaN\<close> on either side
  gives \<^verbatim>\<open>NaN\<close>.  The function returns without an exception and stores nothing else.
\<close>

theorem getDateRangeOptions_schedule:
  "getDateRangeOptions env (Ref a) r d s e w =
     (Inr (), w\<lparr>heap := (heap w)(a := (heap w a)(''startDate'' \<mapsto> s, ''endDate'' \<mapsto> e,
         ''maxRequestsPerCrawl'' \<mapsto>
            Number (js_mul r (js_add (js_abs (differenceInDays env s e)) (Finite 1))),
         ''maxRequestDepth'' \<mapsto>
            Number (js_mul d (js_add (js_abs (differenceInDays env s e)) (Finite 1)))))\<rparr>)
   \<and> js_mul (Finite x) (js_add (js_abs (Finite k)) (Finite 1)) = Finite (x * (\<bar>k\<bar> + 1))"
  by (simp add: getDateRangeOptions_Ref)

text \<open>
  The spec's scenario: from 2024-01-01 to 2024-01-05 with 10 requests and depth 2 per day,
  five days, budgets 50 and 10; the other fields of the template stay.
\<close>

theorem getDateRangeOptions_schedule_witness:
  "(let w' = snd (getDateRangeOptions sample_env (Ref 0) (Finite 10) (Finite 2)
                   (Str ''2024-01-01'') (Str ''2024-01-05'') sample_world)
    in heap w' 0 ''startDate'' = Some (Str ''2024-01-01'')
     \<and> heap w' 0 ''endDate'' = Some (Str ''2024-01-05'')
     \<and> heap w' 0 ''maxRequestsPerCrawl'' = Some (Number (Finite 50))
     \<and> heap w' 0 ''maxRequestDepth'' = Some (Number (Finite 10))
     \<and> heap w' 0 ''query'' = Some (Str ''shoes''))"
  using getDateRangeOptions_schedule [of sample_env 0 "Finite 10" "Finite 2"
      "Str ''2024-01-01''" "Str ''2024-01-05''" sample_world]
  by (simp add: sample_env_def calendar_day_difference_sample sample_world_def world_of_def
        template_def)

subsection \<open>C3: the schedule of the day\<close>

text \<open>
  C3: in daily mode the start date is the beginning and the end date the end of the current
  calendar day, both as \<^verbatim>\<open>MM/DD/YYYY\<close> text (zero-padded month, day, and year of the clock
  reading), and the two budgets are the per-day values themselves, with no multiplication;
  for every per-day value and every date.
\<close>

theorem getDailyOptions_schedule:
  "getDailyOptions t1 t2 (Ref a) r d w =
     (Inr (), w\<lparr>heap := (heap w)(a := (heap w a)(
         ''startDate'' \<mapsto> Str (format (startOfToday t1) ''MM/DD/YYYY''),
         ''endDate'' \<mapsto> Str (format (endOfToday t2) ''MM/DD/YYYY''),
         ''maxRequestsPerCrawl'' \<mapsto> Number r,
         ''maxRequestDepth'' \<mapsto> Number d))\<rparr>)
   \<and> format (startOfToday t1) ''MM/DD/YYYY''
       = zero_pad 2 (dt_month t1) @ ''/'' @ zero_pad 2 (dt_day t1) @ ''/'' @ zero_pad 4 (dt_year t1)
   \<and> format (endOfToday t2) ''MM/DD/YYYY''
       = zero_pad 2 (dt_month t2) @ ''/'' @ zero_pad 2 (dt_day t2) @ ''/'' @ zero_pad 4 (dt_year t2)"
  by (simp add: getDailyOptions_Ref format_mdy startOfToday_def endOfToday_def)

text \<open>The spec's scenario on 7 March 2024: 100 requests and depth 3.\<close>

theorem getDailyOptions_schedule_witness:
  "(let w' = snd (getDailyOptions sample_day sample_day (Ref 0) (Finite 100) (Finite 3)
                   sample_world)
    in heap w' 0 ''startDate'' = Some (Str ''03/07/2024'')
     \<and> heap w' 0 ''endDate'' = Some (Str ''03/07/2024'')
     \<and> heap w' 0 ''maxRequestsPerCrawl'' = Some (Number (Finite 100))
     \<and> heap w' 0 ''maxRequestDepth'' = Some (Number (Finite 3)))"
  using getDailyOptions_schedule [of sample_day sample_day 0 "Finite 100" "Finite 3" sample_world]
  by (simp add: sample_day_def zero_pad_2024)

subsection \<open>C4: the orchestrator contains failures\<close>



subsection \<open>C5: moving the files of a directory\<close>

text \<open>
  C5 says that when \<^verbatim>\<open>moveFilesToDir\<close> returns on its success path, every entry of the
  source directory is gone from it and present in the destination.  The run below moves a
  directory with one file into an empty one.  The call returns without an exception and
  without an error line, with the file still in the source and not in the destination: its
  rename is in flight.  The file is in the destination once the rename has completed, which
  the call does not wait for.
\<close>

theorem moveFilesToDir_returns_before_the_moves:
  "(let w = world_of (Dir [(''raw'', Dir [(''a.json'', File ''1'')]), (''arch'', Dir [])]);
        w' = snd (moveFilesToDir (Str ''raw'') (Str ''arch'') w)
    in fst (moveFilesToDir (Str ''raw'') (Str ''arch'') w) = Inr ()
     \<and> error_lines w' = []
     \<and> resolve (fs w') [''raw'', ''a.json''] = Some (File ''1'')
     \<and> resolve (fs w') [''arch'', ''a.json''] = None
     \<and> inflight w' = [(''raw/a.json'', ''arch/a.json'')]
     \<and> resolve (fs (settle w')) [''raw'', ''a.json''] = None
     \<and> resolve (fs (settle w')) [''arch'', ''a.json''] = Some (File ''1''))"
  by (simp add: Let_def moveFilesToDir_def seqP_nothrow [of _ _ "()"] moveFilesToDir_called_eval
        moveFilesToDir_resumed_eval readdir_await_eval fs_path_Str sample_paths readdir_node_def
        world_of_def error_lines_def settle_def complete_rename_def rename_node_def is_dir_def
        put_entry_def remove_entry_def)

subsection \<open>C6: copying a tree\<close>

text \<open>
  C6 says that for every source and destination directory the source is unchanged after
  \<^verbatim>\<open>recursiveCopy\<close> and the destination holds a structural copy.  Three runs where it
  fails.  With the destination inside the source, and with the source inside the destination,
  the copy writes into the source.  With a regular file in the way of the destination the
  copy fails: \<^verbatim>\<open>recursiveCopy\<close> logs the error and returns, and the file of the source is
  not under the destination.
\<close>

theorem recursiveCopy_nested_counterexample:
  "(let w = world_of (Dir [(''dl'', Dir [(''f'', File ''1''), (''bak'', Dir [])])]);
        w' = snd (recursiveCopy (Str ''dl'') (Str ''dl/bak'') w)
    in is_dir (fs w) (path_of ''dl'') \<and> is_dir (fs w) (path_of ''dl/bak'')
     \<and> resolve (fs w') (path_of ''dl'') \<noteq> resolve (fs w) (path_of ''dl''))
   \<and> (let w = world_of (Dir [(''x'', Dir [(''y'', Dir [(''y'', Dir [(''g'', File ''2'')])])])]);
        w' = snd (recursiveCopy (Str ''x/y'') (Str ''x'') w)
    in is_dir (fs w) (path_of ''x/y'') \<and> is_dir (fs w) (path_of ''x'')
     \<and> resolve (fs w') (path_of ''x/y'') \<noteq> resolve (fs w) (path_of ''x/y''))
   \<and> (let w = world_of (Dir [(''dl'', Dir [(''f'', File ''1'')]), (''a'', File ''x'')]);
        w' = snd (recursiveCopy (Str ''dl'') (Str ''a/b'') w)
    in fst (recursiveCopy (Str ''dl'') (Str ''a/b'') w) = Inr ()
     \<and> error_lines w' = [(Error, Msg ''Error recursively copying files from dl to a/b''),
                          (Error, Caught (FsError ''ENOTDIR''))]
     \<and> resolve (fs w') (path_of ''a/b'' @ [''f'']) = None)"
  by (simp add: Let_def recursiveCopy_eval fs_path_Str sample_paths world_of_def is_dir_def
        copy_node_def error_lines_def)

text \<open>
  C6, amended: \<^verbatim>\<open>recursiveCopy\<close> never throws.  For a source and a destination neither of
  which lies inside the other (nor is the other), when the call logs no error, the tree at
  the source is what it was, the source is a directory and so is the destination; every file
  under the source is under the destination at the same relative path with the same content,
  and every directory under the source is a directory under the destination at the same
  relative path.
\<close>

theorem recursiveCopy_replicates:
  assumes "error_lines (snd (recursiveCopy (Str s) (Str d) w)) = error_lines w"
    and "\<not> prefix (path_of s) (path_of d)" and "\<not> prefix (path_of d) (path_of s)"
  shows "(let w' = snd (recursiveCopy (Str s) (Str d) w)
          in fst (recursiveCopy (Str s) (Str d) w) = Inr ()
           \<and> resolve (fs w') (path_of s) = resolve (fs w) (path_of s)
           \<and> is_dir (fs w) (path_of s)
           \<and> is_dir (fs w') (path_of d)
           \<and> (\<forall>q c. resolve (fs w) (path_of s @ q) = Some (File c)
                  \<longrightarrow> resolve (fs w') (path_of d @ q) = Some (File c))
           \<and> (\<forall>q. is_dir (fs w) (path_of s @ q) \<longrightarrow> is_dir (fs w') (path_of d @ q)))"
proof -
  from assms(1) obtain t' where c: "copy_node (path_of s) (path_of d) (fs w) = Inr t'"
    by (cases "copy_node (path_of s) (path_of d) (fs w)")
      (simp_all add: errors_recursiveCopy fs_path_Str)
  then obtain es t1 where
    a: "resolve (fs w) (path_of s) = Some (Dir es)"
    and m: "mkdirp_node (path_of d) (fs w) = Inr t1"
    and t': "t' = update_at (path_of d) (overlay (Dir es)) t1"
    by (auto simp: copy_node_def split: option.splits node.splits sum.splits)
  from mkdirp_is_dir [OF m] obtain D where b: "resolve t1 (path_of d) = Some D"
    by (auto simp: is_dir_def split: option.splits)
  have fs': "fs (snd (recursiveCopy (Str s) (Str d) w)) = t'"
    by (simp add: recursiveCopy_eval fs_path_Str c)
  have kept: "resolve t' (path_of s) = resolve (fs w) (path_of s)"
    using c assms(2,3) by (rule copy_node_source_kept)
  have at: "resolve t' (path_of d @ q) = resolve (overlay (Dir es) D) q" for q
    unfolding t' using b by (rule resolve_update_at_same)
  have src_dir: "is_dir (fs w) (path_of s)"
    by (simp add: is_dir_def a)
  have "is_dir (Dir es) []"
    by (simp add: is_dir_def)
  then have "is_dir (overlay (Dir es) D) []"
    by (rule overlay_dir)
  then have dest_dir: "is_dir t' (path_of d)"
    using at [of "[]"] by (simp add: is_dir_def)
  have files: "resolve t' (path_of d @ q) = Some (File c)"
    if "resolve (fs w) (path_of s @ q) = Some (File c)" for q c
  proof -
    from that have "resolve (Dir es) q = Some (File c)" by (simp add: resolve_append a)
    then have "resolve (overlay (Dir es) D) q = Some (File c)" by (rule overlay_file)
    then show ?thesis by (simp only: at)
  qed
  have dirs: "is_dir t' (path_of d @ q)" if "is_dir (fs w) (path_of s @ q)" for q
  proof -
    from that have "is_dir (Dir es) q" by (simp add: is_dir_def resolve_append a)
    then have "is_dir (overlay (Dir es) D) q" by (rule overlay_dir)
    then show ?thesis by (simp only: is_dir_def at)
  qed
  show ?thesis
    unfolding Let_def fs' using kept files dirs src_dir dest_dir by (simp add: fst_recursiveCopy)
qed

text \<open>
  A download directory with a file and a subdirectory, copied into an archive directory that
  already holds a file: no error is logged, the source stays, both files arrive, the old file
  stays.
\<close>

theorem recursiveCopy_replicates_witness:
  "(let w = world_of (Dir [(''dl'', Dir [(''f'', File ''1''), (''sub'', Dir [(''g'', File ''2'')])]),
                           (''arch'', Dir [(''old'', File ''0'')])]);
        w' = snd (recursiveCopy (Str ''dl'') (Str ''arch'') w)
    in error_lines w' = error_lines w
     \<and> resolve (fs w') [''dl''] = resolve (fs w) [''dl'']
     \<and> resolve (fs w') [''arch'', ''sub'', ''g''] = Some (File ''2'')
     \<and> resolve (fs w') [''arch'', ''f''] = Some (File ''1'')
     \<and> resolve (fs w') [''arch'', ''old''] = Some (File ''0''))"
proof -
  let ?w = "world_of (Dir [(''dl'', Dir [(''f'', File ''1''), (''sub'', Dir [(''g'', File ''2'')])]),
                           (''arch'', Dir [(''old'', File ''0'')])])"
  have e: "error_lines (snd (recursiveCopy (Str ''dl'') (Str ''arch'') ?w)) = error_lines ?w"
    by (simp add: errors_recursiveCopy fs_path_Str sample_paths world_of_def copy_node_def)
  have h: "\<not> prefix (path_of ''dl'') (path_of ''arch'')" "\<not> prefix (path_of ''arch'') (path_of ''dl'')"
    by (simp_all add: sample_paths)
  have old: "resolve (fs (snd (recursiveCopy (Str ''dl'') (Str ''arch'') ?w))) [''arch'', ''old'']
               = Some (File ''0'')"
    by (simp add: recursiveCopy_eval fs_path_Str sample_paths world_of_def copy_node_def)
  from recursiveCopy_replicates [OF e h] have
    "resolve (fs (snd (recursiveCopy (Str ''dl'') (Str ''arch'') ?w))) (path_of ''dl'')
       = resolve (fs ?w) (path_of ''dl'')"
    and f: "\<And>q c. resolve (fs ?w) (path_of ''dl'' @ q) = Some (File c)
                 \<Longrightarrow> resolve (fs (snd (recursiveCopy (Str ''dl'') (Str ''arch'') ?w)))
                       (path_of ''arch'' @ q) = Some (File c)"
    by (simp_all add: Let_def)
  moreover have "resolve (fs ?w) (path_of ''dl'' @ [''sub'', ''g'']) = Some (File ''2'')"
    "resolve (fs ?w) (path_of ''dl'' @ [''f'']) = Some (File ''1'')"
    by (simp_all add: sample_paths world_of_def)
  ultimately show ?thesis using e old f [of "[''sub'', ''g'']" "''2''"] f [of "[''f'']" "''1''"]
    by (simp add: Let_def sample_paths)
qed

subsection \<open>C7: making a directory twice\<close>

text \<open>
  C7 says that for every path two calls of \<^verbatim>\<open>makeDir\<close> in a row never fail and leave the
  directory present.  With a file in the way of the path, both calls return without an
  exception, each logs the error, and there is no directory.
\<close>

theorem makeDir_blocked_counterexample:
  "(let w = world_of (Dir [(''a'', File ''x'')]);
        w1 = snd (makeDir (Str ''a/b'') w);
        w2 = snd (makeDir (Str ''a/b'') w1)
    in fst (makeDir (Str ''a/b'') w) = Inr ()
     \<and> fst (makeDir (Str ''a/b'') w1) = Inr ()
     \<and> \<not> is_dir (fs w2) (path_of ''a/b''))"
  by (simp add: Let_def fst_makeDir fs_makeDir fs_path_Str sample_paths world_of_def is_dir_def)

text \<open>
  C7, amended: for every path, neither of two calls of \<^verbatim>\<open>makeDir\<close> in a row throws, and
  the second leaves the file system as the first left it.  When the first call logs no error,
  the path is a text, the directory is present after the first call and after the second, and
  the second logs no error either.  A call on a directory that is already there changes
  nothing and logs no error, and \<^verbatim>\<open>archive\<close> never throws: a second run on the same day
  does not fail on the directories the first run made.
\<close>

theorem makeDir_twice:
  "(let w1 = snd (makeDir dir w); w2 = snd (makeDir dir w1)
    in fst (makeDir dir w) = Inr ()
     \<and> fst (makeDir dir w1) = Inr ()
     \<and> fs w2 = fs w1
     \<and> (error_lines w1 = error_lines w \<longrightarrow>
          dir = Str (to_string dir)
          \<and> is_dir (fs w1) (path_of (to_string dir))
          \<and> is_dir (fs w2) (path_of (to_string dir))
          \<and> error_lines w2 = error_lines w1)
     \<and> (dir = Str (to_string dir) \<and> is_dir (fs w) (path_of (to_string dir)) \<longrightarrow>
          fs w1 = fs w \<and> error_lines w1 = error_lines w)
     \<and> fst (archive now options w) = Inr ())"
proof (cases "fs_path dir")
  case (Inl e)
  then show ?thesis
    by (cases dir)
      (simp_all add: Let_def fst_makeDir fs_makeDir errors_makeDir fs_path_def
         archive_never_raises)
next
  case (Inr p)
  from fs_path_Inr [OF Inr] have d: "dir = Str (to_string dir)"
    and p: "p = path_of (to_string dir)"
    by simp_all
  show ?thesis
  proof (cases "mkdirp_node p (fs w)")
    case (Inl e)
    have "\<not> is_dir (fs w) p"
      using mkdirp_existing [of "fs w" p] Inl by auto
    then show ?thesis
      using Inl Inr p
      by (simp add: Let_def fst_makeDir fs_makeDir errors_makeDir archive_never_raises)
  next
    case (Inr t)
    from mkdirp_is_dir [OF Inr] have dt: "is_dir t p" .
    from mkdirp_existing [OF dt] have again: "mkdirp_node p t = Inr t" .
    have same: "is_dir (fs w) p \<Longrightarrow> t = fs w"
      using mkdirp_existing [of "fs w" p] Inr by simp
    show ?thesis
      using Inr \<open>fs_path dir = Inr p\<close> dt again same d p
      by (simp add: Let_def fst_makeDir fs_makeDir errors_makeDir archive_never_raises)
  qed
qed

text \<open>The dated directory of a year, made twice under an archive root that exists.\<close>

theorem makeDir_twice_witness:
  "(let w = world_of (Dir [(''archived'', Dir [])]);
        w1 = snd (makeDir (Str ''archived/2024'') w); w2 = snd (makeDir (Str ''archived/2024'') w1)
    in fst (makeDir (Str ''archived/2024'') w) = Inr ()
     \<and> fst (makeDir (Str ''archived/2024'') w1) = Inr ()
     \<and> fs w2 = fs w1
     \<and> error_lines w1 = error_lines w
     \<and> is_dir (fs w2) [''archived'', ''2024'']
     \<and> error_lines w2 = error_lines w1)"
proof -
  have e: "error_lines (snd (makeDir (Str ''archived/2024'') (world_of (Dir [(''archived'', Dir [])]))))
           = error_lines (world_of (Dir [(''archived'', Dir [])]))"
    by (simp add: errors_makeDir fs_path_Str sample_paths world_of_def)
  show ?thesis
    using makeDir_twice [of "Str ''archived/2024''" "world_of (Dir [(''archived'', Dir [])])"] e
    by (simp add: Let_def sample_paths)
qed

subsection \<open>C8: the archive of 7 March 2024\<close>



subsection \<open>C9: the daily flag together with dates\<close>

text \<open>
  C9: when the daily flag is set, \<^verbatim>\<open>scrape\<close> does exactly what it does without the start
  and end dates, whatever they are: the same result and the same world.  It adds no error
  line to the log, and the schedule stored in the template is the one of the day.
\<close>

theorem scrape_daily_takes_precedence:
  assumes "truthy (DAILY options)"
  shows "scrape t1 t2 env options config w
           = scrape t1 t2 env (options\<lparr>START_DATE := Undefined, END_DATE := Undefined\<rparr>) config w
       \<and> error_lines (snd (scrape t1 t2 env options config w)) = error_lines w
       \<and> heap (snd (scrape t1 t2 env options \<lparr>INPUT = Ref a\<rparr> w)) a ''startDate''
           = Some (Str (format (startOfToday t1) ''MM/DD/YYYY''))
       \<and> heap (snd (scrape t1 t2 env options \<lparr>INPUT = Ref a\<rparr> w)) a ''endDate''
           = Some (Str (format (endOfToday t2) ''MM/DD/YYYY''))
       \<and> heap (snd (scrape t1 t2 env options \<lparr>INPUT = Ref a\<rparr> w)) a ''maxRequestsPerCrawl''
           = Some (Number (parseInt (REQUESTS_PER_DAY options)))
       \<and> heap (snd (scrape t1 t2 env options \<lparr>INPUT = Ref a\<rparr> w)) a ''maxRequestDepth''
           = Some (Number (parseInt (REQUEST_DEPTHS_PER_DAY options)))"
proof -
  have same: "scrape t1 t2 env options config w
           = scrape t1 t2 env (options\<lparr>START_DATE := Undefined, END_DATE := Undefined\<rparr>) config w"
    using assms by (simp add: scrape_def)
  have quiet: "error_lines (snd (scrape t1 t2 env options config w)) = error_lines w"
    unfolding scrape_def Let_def using assms
    by (auto intro!: quiet_seqP quiet_set_prop quiet_log quiet_post quiet_okP
          quiet_getDailyOptions)
  have fields: "heap (snd (scrape t1 t2 env options \<lparr>INPUT = Ref a\<rparr> w)) a
      = (dry_run_fields options (heap w a))(
           ''startDate'' \<mapsto> Str (format (startOfToday t1) ''MM/DD/YYYY''),
           ''endDate'' \<mapsto> Str (format (endOfToday t2) ''MM/DD/YYYY''),
           ''maxRequestsPerCrawl'' \<mapsto> Number (parseInt (REQUESTS_PER_DAY options)),
           ''maxRequestDepth'' \<mapsto> Number (parseInt (REQUEST_DEPTHS_PER_DAY options)))"
    using assms by (simp add: scrape_Ref heap_post schedule_fields_def)
  show ?thesis
    using same quiet by (simp add: fields)
qed

text \<open>The daily scenario with a date range added: the template gets the day, not the range.\<close>

theorem scrape_daily_takes_precedence_witness:
  "(let options = sample_options\<lparr>START_DATE := Str ''2024-01-01'', END_DATE := Str ''2024-01-05''\<rparr>;
        w' = snd (scrape sample_day sample_day sample_env options \<lparr>INPUT = Ref 0\<rparr> sample_world)
    in truthy (DAILY options) \<and> truthy (START_DATE options) \<and> truthy (END_DATE options)
     \<and> error_lines w' = []
     \<and> heap w' 0 ''startDate'' = Some (Str ''03/07/2024'')
     \<and> heap w' 0 ''endDate'' = Some (Str ''03/07/2024'')
     \<and> heap w' 0 ''maxRequestsPerCrawl'' = Some (Number (Finite 100))
     \<and> heap w' 0 ''maxRequestDepth'' = Some (Number (Finite 3)))"
proof -
  let ?o = "sample_options\<lparr>START_DATE := Str ''2024-01-01'', END_DATE := Str ''2024-01-05''\<rparr>"
  have d: "truthy (DAILY ?o)" "truthy (START_DATE ?o)" "truthy (END_DATE ?o)"
    by (simp_all add: sample_options_def)
  have r: "parseInt (REQUESTS_PER_DAY sample_options) = Finite 100"
    "parseInt (REQUEST_DEPTHS_PER_DAY sample_options) = Finite 3"
    by (simp_all add: sample_options_def parseInt_sample)
  have e: "error_lines sample_world = []"
    by (simp add: error_lines_def sample_world_def world_of_def)
  note t = scrape_daily_takes_precedence [OF d(1), of sample_day sample_day sample_env
      "\<lparr>INPUT = Ref 0\<rparr>" sample_world 0]
  from t have q: "error_lines (snd (scrape sample_day sample_day sample_env ?o \<lparr>INPUT = Ref 0\<rparr>
      sample_world)) = error_lines sample_world"
    by blast
  from t have f:
    "heap (snd (scrape sample_day sample_day sample_env ?o \<lparr>INPUT = Ref 0\<rparr> sample_world)) 0
       ''startDate'' = Some (Str (format (startOfToday sample_day) ''MM/DD/YYYY''))"
    "heap (snd (scrape sample_day sample_day sample_env ?o \<lparr>INPUT = Ref 0\<rparr> sample_world)) 0
       ''endDate'' = Some (Str (format (endOfToday sample_day) ''MM/DD/YYYY''))"
    "heap (snd (scrape sample_day sample_day sample_env ?o \<lparr>INPUT = Ref 0\<rparr> sample_world)) 0
       ''maxRequestsPerCrawl'' = Some (Number (parseInt (REQUESTS_PER_DAY ?o)))"
    "heap (snd (scrape sample_day sample_day sample_env ?o \<lparr>INPUT = Ref 0\<rparr> sample_world)) 0
       ''maxRequestDepth'' = Some (Number (parseInt (REQUEST_DEPTHS_PER_DAY ?o)))"
    by blast+
  show ?thesis
    unfolding Let_def using d by (simp add: q f r e format_sample)
qed

subsection \<open>C10: the template is written in place\<close>

text \<open>
  C10: \<^verbatim>\<open>scrape\<close> stores into the object \<^verbatim>\<open>config.INPUT\<close> refers to, and into no other:
  after the call, whether or not the post succeeded, every other object is what it was, and
  the caller's object holds the dry-run fields (\<^verbatim>\<open>isTestRun\<close> true and \<^verbatim>\<open>logLevel\<close> 5)
  when the dry-run flag is set and the schedule fields of the selected mode.  The body of the
  post is that same object in that state.
\<close>

theorem scrape_writes_onto_the_template:
  "(let w' = snd (scrape t1 t2 env options \<lparr>INPUT = Ref a\<rparr> w);
        ob = heap w' a;
        n = js_add (js_abs (differenceInDays env (START_DATE options) (END_DATE options)))
              (Finite 1)
    in (\<forall>b. b \<noteq> a \<longrightarrow> heap w' b = heap w b)
     \<and> requests w' = requests w @ [(RUN_TASK_ENDPOINT options, Body ob)]
     \<and> (truthy (DRY_RUN options) \<longrightarrow>
          ob ''isTestRun'' = Some (Boolean True) \<and> ob ''logLevel'' = Some (Number (Finite 5)))
     \<and> (truthy (DAILY options) \<longrightarrow>
          ob ''startDate'' = Some (Str (format (startOfToday t1) ''MM/DD/YYYY''))
        \<and> ob ''endDate'' = Some (Str (format (endOfToday t2) ''MM/DD/YYYY''))
        \<and> ob ''maxRequestsPerCrawl'' = Some (Number (parseInt (REQUESTS_PER_DAY options)))
        \<and> ob ''maxRequestDepth'' = Some (Number (parseInt (REQUEST_DEPTHS_PER_DAY options))))
     \<and> (\<not> truthy (DAILY options) \<and> truthy (START_DATE options) \<and> truthy (END_DATE options) \<longrightarrow>
          ob ''startDate'' = Some (START_DATE options)
        \<and> ob ''endDate'' = Some (END_DATE options)
        \<and> ob ''maxRequestsPerCrawl''
            = Some (Number (js_mul (parseInt (REQUESTS_PER_DAY options)) n))
        \<and> ob ''maxRequestDepth''
            = Some (Number (js_mul (parseInt (REQUEST_DEPTHS_PER_DAY options)) n))))"
proof -
  have h: "heap (snd (scrape t1 t2 env options \<lparr>INPUT = Ref a\<rparr> w))
      = (heap w)(a := schedule_fields t1 t2 env options (dry_run_fields options (heap w a)))"
    by (simp add: scrape_Ref heap_post)
  have r: "requests (snd (scrape t1 t2 env options \<lparr>INPUT = Ref a\<rparr> w))
      = requests w @ [(RUN_TASK_ENDPOINT options,
           Body (schedule_fields t1 t2 env options (dry_run_fields options (heap w a))))]"
    by (simp add: scrape_Ref requests_post)
  show ?thesis
    unfolding Let_def h r by (simp add: schedule_fields_def dry_run_fields_def)
qed

text \<open>A dry run over a date range: the caller's object after the call, and the post.\<close>

theorem scrape_writes_onto_the_template_witness:
  "(let options = sample_options\<lparr>DAILY := Undefined, DRY_RUN := Boolean True,
                      START_DATE := Str ''2024-01-01'', END_DATE := Str ''2024-01-05'',
                      REQUESTS_PER_DAY := Str ''10'', REQUEST_DEPTHS_PER_DAY := Str ''2''\<rparr>;
        w' = snd (scrape sample_day sample_day sample_env options \<lparr>INPUT = Ref 0\<rparr> sample_world)
    in heap w' 1 = heap sample_world 1
     \<and> heap w' 0 ''isTestRun'' = Some (Boolean True)
     \<and> heap w' 0 ''logLevel'' = Some (Number (Finite 5))
     \<and> heap w' 0 ''startDate'' = Some (Str ''2024-01-01'')
     \<and> heap w' 0 ''endDate'' = Some (Str ''2024-01-05'')
     \<and> heap w' 0 ''maxRequestsPerCrawl'' = Some (Number (Finite 50))
     \<and> heap w' 0 ''maxRequestDepth'' = Some (Number (Finite 10))
     \<and> requests w' = [(Str ''http://host/run'', Body (heap w' 0))])"
proof -
  let ?o = "sample_options\<lparr>DAILY := Undefined, DRY_RUN := Boolean True,
                      START_DATE := Str ''2024-01-01'', END_DATE := Str ''2024-01-05'',
                      REQUESTS_PER_DAY := Str ''10'', REQUEST_DEPTHS_PER_DAY := Str ''2''\<rparr>"
  from scrape_writes_onto_the_template [of sample_day sample_day sample_env ?o 0 sample_world]
  show ?thesis
    by (simp add: Let_def sample_options_def parseInt_sample sample_env_def
          calendar_day_difference_sample sample_world_def world_of_def)
qed

end
